theory Spec2Isabelle
  imports Main
begin

section \<open>ProteinCartography: map_refseqids.py\<close>

text \<open>
  A shallow embedding of \<^verbatim>\<open>src/ProteinCartography/map_refseqids.py\<close>: the two functions
  \<^verbatim>\<open>map_refseqids_bioservices\<close> and \<^verbatim>\<open>map_refseqids_rest\<close>, which read a file of
  identifiers, ask the UniProt id-mapping service for their UniProtKB accessions once per
  source database, collect the answers in a pandas data frame and write the unique
  accessions to a file.

  Python strings are modelled as \<^typ>\<open>string\<close>; a character stands for a code point in
  the range U+0000 to U+00FF. The file system is a map from paths to file contents,
  together with the paths that can be opened for writing; the HTTP traffic is a list of
  the requests issued, in order, and every exception the code can raise on the modelled
  inputs is a value of the type \<open>error\<close>. The call
  \<^verbatim>\<open>sleep(sleep_time)\<close> changes no value the program computes and is left out.
\<close>

subsection \<open>Module constants\<close>

definition DEFAULT_DBS :: "string list" where
  "DEFAULT_DBS = [''EMBL-GenBank-DDBJ_CDS'', ''RefSeq_Protein'']"

definition UNIPROT_IDMAPPING_API :: string where
  "UNIPROT_IDMAPPING_API = ''https://rest.uniprot.org/idmapping''"

definition REQUESTS_TRIES :: nat where
  "REQUESTS_TRIES = 0"

definition REQUESTS_LIMIT :: nat where
  "REQUESTS_LIMIT = 10"

definition REQUESTS_SLEEP_TIME :: nat where
  "REQUESTS_SLEEP_TIME = 30"

definition REQUESTS_HEADER :: "(string \<times> string) list" where
  "REQUESTS_HEADER =
     [(''User-Agent'', ''ProteinCartography/0.4 (Arcadia Science) python-requests/2.0.1'')]"

text \<open>
  The three polling constants are read once per database (lines 151 to 153). They are
  passed to the model as a record, so that a run with another attempt budget can be
  stated; \<open>default_config\<close> holds the values of the module.
\<close>

record config =
  cfg_tries :: nat
  cfg_limit :: nat
  cfg_sleep_time :: nat

definition default_config :: config where
  "default_config =
     \<lparr>cfg_tries = REQUESTS_TRIES, cfg_limit = REQUESTS_LIMIT,
      cfg_sleep_time = REQUESTS_SLEEP_TIME\<rparr>"

subsection \<open>Strings: line splitting and joining\<close>

definition LF :: char where
  "LF = CHR 0x0A"

definition CR :: char where
  "CR = CHR 0x0D"

text \<open>
  The line boundaries of \<^verbatim>\<open>str.splitlines\<close> among the code points below U+0100:
  \<^verbatim>\<open>\n \v \f \r \x1c \x1d \x1e \x85\<close>.
\<close>

definition linebreak :: "char \<Rightarrow> bool" where
  "linebreak c \<longleftrightarrow>
     c \<in> set [CHR 0x0A, CHR 0x0B, CHR 0x0C, CHR 0x0D, CHR 0x1C, CHR 0x1D, CHR 0x1E, CHR 0x85]"

text \<open>
  \<^verbatim>\<open>str.splitlines()\<close>: the text is cut at every line boundary, \<^verbatim>\<open>\r\n\<close> counts as
  one boundary, the boundaries are not kept, and text after the last boundary is a line
  only when it is not empty. The first argument is the line read so far.
\<close>

fun splitlines_from :: "string \<Rightarrow> string \<Rightarrow> string list" where
  "splitlines_from cur [] = (if cur = [] then [] else [cur])"
| "splitlines_from cur (c # cs) =
     (if linebreak c then
        (case cs of
           d # ds \<Rightarrow>
             if c = CR \<and> d = LF then cur # splitlines_from [] ds
             else cur # splitlines_from [] cs
         | [] \<Rightarrow> cur # splitlines_from [] cs)
      else splitlines_from (cur @ [c]) cs)"

definition splitlines :: "string \<Rightarrow> string list" where
  "splitlines s = splitlines_from [] s"

text \<open>
  \<^verbatim>\<open>open(input_file, "r")\<close> reads in text mode with universal newlines: \<^verbatim>\<open>\r\n\<close> and
  a lone \<^verbatim>\<open>\r\<close> arrive as \<^verbatim>\<open>\n\<close>.
\<close>

fun universal_newlines :: "string \<Rightarrow> string" where
  "universal_newlines [] = []"
| "universal_newlines [c] = (if c = CR then [LF] else [c])"
| "universal_newlines (c # d # cs) =
     (if c = CR \<and> d = LF then LF # universal_newlines cs
      else if c = CR then LF # universal_newlines (d # cs)
      else c # universal_newlines (d # cs))"

text \<open>\<^verbatim>\<open>f.read().splitlines()\<close> on a file opened for reading.\<close>

definition read_lines :: "string \<Rightarrow> string list" where
  "read_lines content = splitlines (universal_newlines content)"

text \<open>\<^verbatim>\<open>",".join(ids)\<close>\<close>

fun join_commas :: "string list \<Rightarrow> string" where
  "join_commas [] = []"
| "join_commas [x] = x"
| "join_commas (x # y # ys) = x @ '','' @ join_commas (y # ys)"

text \<open>
  \<^verbatim>\<open>list(set(input_lines))\<close>: the distinct lines, in the iteration order of a Python
  set. That order comes from the hash values of the strings, which change from one
  process to the next; the model takes the hash as a parameter \<open>h\<close> and orders the
  distinct lines by it.
\<close>

definition list_set :: "(string \<Rightarrow> nat) \<Rightarrow> string list \<Rightarrow> string list" where
  "list_set h xs = sort_key h (remdups xs)"

subsection \<open>Data frames\<close>

text \<open>
  A mapping result is a list of rows (queried identifier, canonical accession). The data
  frames of this program have either no column at all (\<^verbatim>\<open>pd.DataFrame()\<close> and the frame
  of an empty result list) or the two columns of the rows.
\<close>

type_synonym row = "string \<times> string"

record dataframe =
  df_columns :: "string list"
  df_rows :: "row list"

datatype error =
    KeyError string
  | SystemExit nat
  | FileNotFoundError string
  | OSError string

definition pd_empty :: dataframe where
  "pd_empty = \<lparr>df_columns = [], df_rows = []\<rparr>"

text \<open>
  \<^verbatim>\<open>pd.DataFrame(results["results"])\<close> for the REST stream, whose rows are objects with
  the keys \<^verbatim>\<open>from\<close> and \<^verbatim>\<open>to\<close>.
\<close>

definition pd_DataFrame :: "row list \<Rightarrow> dataframe" where
  "pd_DataFrame rs =
     (if rs = [] then pd_empty else \<lparr>df_columns = [''from'', ''to''], df_rows = rs\<rparr>)"

text \<open>
  \<^verbatim>\<open>pd.json_normalize(results["results"])\<close> for bioservices, whose rows carry the accession
  inside the object \<^verbatim>\<open>to\<close>, under \<^verbatim>\<open>primaryAccession\<close>; flattening names the column
  \<^verbatim>\<open>to.primaryAccession\<close>.
\<close>

definition json_normalize :: "row list \<Rightarrow> dataframe" where
  "json_normalize rs =
     (if rs = [] then pd_empty
      else \<lparr>df_columns = [''from'', ''to.primaryAccession''], df_rows = rs\<rparr>)"

definition len :: "dataframe \<Rightarrow> nat" where
  "len df = length (df_rows df)"

text \<open>\<^verbatim>\<open>pd.concat([a, b], axis=0)\<close> on frames with the same columns, or with \<open>a\<close> empty.\<close>

definition pd_concat :: "dataframe \<Rightarrow> dataframe \<Rightarrow> dataframe" where
  "pd_concat a b =
     \<lparr>df_columns = (if df_columns a = [] then df_columns b else df_columns a),
      df_rows = df_rows a @ df_rows b\<rparr>"

text \<open>\<^verbatim>\<open>df[name]\<close>: the values of a column, KeyError when the frame has no such column.\<close>

definition getitem :: "dataframe \<Rightarrow> string \<Rightarrow> error + string list" where
  "getitem df name =
     (case df_columns df of
        [a, b] \<Rightarrow>
          if name = a then Inr (map fst (df_rows df))
          else if name = b then Inr (map snd (df_rows df))
          else Inl (KeyError name)
      | _ \<Rightarrow> Inl (KeyError name))"

text \<open>
  \<^verbatim>\<open>Series.unique()\<close>: pandas scans the values once and appends to the result each value
  that is not yet in its hash table. The first argument is the result so far.
\<close>

fun unique_scan :: "string list \<Rightarrow> string list \<Rightarrow> string list" where
  "unique_scan seen [] = seen"
| "unique_scan seen (x # xs) =
     (if x \<in> set seen then unique_scan seen xs else unique_scan (seen @ [x]) xs)"

definition unique :: "string list \<Rightarrow> string list" where
  "unique xs = unique_scan [] xs"

subsection \<open>The world: files and HTTP requests\<close>

datatype http_method = GET | POST

record request =
  req_method :: http_method
  req_url :: string
  req_data :: "(string \<times> string) list"
  req_headers :: "(string \<times> string) list"

text \<open>
  \<open>writable\<close> says of a path whether \<^verbatim>\<open>open(path, "w+")\<close> succeeds there: it does not
  where the directory is missing, the path is a directory or the permission is denied,
  and it never does for the empty path.
\<close>

record world =
  files :: "string \<rightharpoonup> string"
  writable :: "string \<Rightarrow> bool"
  requests :: "request list"

definition can_write :: "world \<Rightarrow> string \<Rightarrow> bool" where
  "can_write w path \<longleftrightarrow> path \<noteq> [] \<and> writable w path"

text \<open>
  The id-mapping service, as far as the program reads its answers: the \<^verbatim>\<open>jobId\<close> of the
  ticket returned by \<^verbatim>\<open>/run\<close> for a source database and an id string (None when the
  answer has no such key), the keys of the payload of the \<open>k\<close>-th status poll of a job
  (counted from 0), and the \<^verbatim>\<open>results\<close> array of the stream of a job (None when the
  answer has no such key).
\<close>

record service =
  run_resp :: "string \<Rightarrow> string \<Rightarrow> string option"
  status_resp :: "string \<Rightarrow> nat \<Rightarrow> string list"
  stream_resp :: "string \<Rightarrow> row list option"

definition send :: "request \<Rightarrow> world \<Rightarrow> world" where
  "send r w = w\<lparr>requests := requests w @ [r]\<rparr>"

definition run_request :: "string \<Rightarrow> string \<Rightarrow> request" where
  "run_request input_string db =
     \<lparr>req_method = POST, req_url = UNIPROT_IDMAPPING_API @ ''/run'',
      req_data = [(''ids'', input_string), (''from'', db), (''to'', ''UniProtKB'')],
      req_headers = REQUESTS_HEADER\<rparr>"

definition status_request :: "string \<Rightarrow> request" where
  "status_request job =
     \<lparr>req_method = GET, req_url = UNIPROT_IDMAPPING_API @ ''/status/'' @ job,
      req_data = [], req_headers = REQUESTS_HEADER\<rparr>"

definition stream_request :: "string \<Rightarrow> request" where
  "stream_request job =
     \<lparr>req_method = GET, req_url = UNIPROT_IDMAPPING_API @ ''/stream/'' @ job,
      req_data = [], req_headers = []\<rparr>"

subsection \<open>map_refseqids_rest\<close>

text \<open>
  The polling loop, lines 154 to 163:
  \<^verbatim>\<open>
  while repeat and tries < limit:
      status = get(f'.../status/{ticket["jobId"]}', headers=REQUESTS_HEADER).json()
      sleep(sleep_time)
      tries += 1
      repeat = "results" not in status
  \<close>
  It returns the final \<open>repeat\<close> and \<open>tries\<close>.
\<close>

function poll :: "service \<Rightarrow> string \<Rightarrow> nat \<Rightarrow> bool \<Rightarrow> nat \<Rightarrow> world \<Rightarrow> (bool \<times> nat) \<times> world" where
  "poll svc job limit repeat tries w =
     (if repeat \<and> tries < limit then
        poll svc job limit (''results'' \<notin> set (status_resp svc job tries)) (Suc tries)
          (send (status_request job) w)
      else ((repeat, tries), w))"
  by pat_completeness auto
termination
  by (relation "measure (\<lambda>(svc, job, limit, repeat, tries, w). limit - tries)") auto

declare poll.simps [simp del]

text \<open>
  One round of the loop over the databases up to the data frame of its results, lines
  143 to 171. A ticket without \<^verbatim>\<open>jobId\<close> raises KeyError where the key is first read:
  in the first poll, or, when the loop is not entered, after the test of line 165.
\<close>

definition fetch_results :: "config \<Rightarrow> service \<Rightarrow> string \<Rightarrow> string \<Rightarrow> world \<Rightarrow> (error + dataframe) \<times> world" where
  "fetch_results cfg svc input_string db w =
     (let w1 = send (run_request input_string db) w;
          sleep_time = cfg_sleep_time cfg
      in case run_resp svc db input_string of
           None \<Rightarrow>
             if cfg_tries cfg < cfg_limit cfg then (Inl (KeyError ''jobId''), w1)
             else if cfg_tries cfg = 10 then (Inl (SystemExit (cfg_tries cfg * sleep_time)), w1)
             else (Inl (KeyError ''jobId''), w1)
         | Some job \<Rightarrow>
             (case poll svc job (cfg_limit cfg) True (cfg_tries cfg) w1 of
                ((repeat, tries), w2) \<Rightarrow>
                  if tries = 10 then (Inl (SystemExit (tries * sleep_time)), w2)
                  else
                    (let w3 = send (stream_request job) w2
                     in case stream_resp svc job of
                          None \<Rightarrow> (Inl (KeyError ''results''), w3)
                        | Some rs \<Rightarrow> (Inr (pd_DataFrame rs), w3))))"

text \<open>
  The end of a round, lines 173 to 182 (and 92 to 101): an empty frame is skipped, the
  frame of the first database replaces the collector, any other is appended to it.
\<close>

definition merge_step :: "nat \<Rightarrow> dataframe \<Rightarrow> dataframe \<Rightarrow> dataframe" where
  "merge_step i dummy_df results_df =
     (if len results_df = 0 then dummy_df
      else if i = 0 then results_df
      else pd_concat dummy_df results_df)"

text \<open>\<^verbatim>\<open>for i, db in enumerate(query_dbs)\<close>, lines 142 to 182.\<close>

fun rest_loop :: "config \<Rightarrow> service \<Rightarrow> string \<Rightarrow> (nat \<times> string) list \<Rightarrow> dataframe \<Rightarrow> world \<Rightarrow> (error + dataframe) \<times> world" where
  "rest_loop cfg svc input_string [] dummy_df w = (Inr dummy_df, w)"
| "rest_loop cfg svc input_string ((i, db) # rest) dummy_df w =
     (case fetch_results cfg svc input_string db w of
        (Inl e, w') \<Rightarrow> (Inl e, w')
      | (Inr results_df, w') \<Rightarrow>
          rest_loop cfg svc input_string rest (merge_step i dummy_df results_df) w')"

text \<open>\<^verbatim>\<open>f.writelines(hit + "\n" for hit in hits)\<close>: the text that is written.\<close>

definition writelines :: "string list \<Rightarrow> string" where
  "writelines hits = concat (map (\<lambda>hit. hit @ [LF]) hits)"

text \<open>
  Lines 188 and 189 (and 107 and 108): \<^verbatim>\<open>open(output_file, "w+")\<close> raises an OSError
  (FileNotFoundError, IsADirectoryError, PermissionError) when the destination cannot be
  opened; otherwise it creates the file or empties it, and the lines are written.
\<close>

definition write_file :: "string \<Rightarrow> string list \<Rightarrow> world \<Rightarrow> (error + unit) \<times> world" where
  "write_file output_file hits w =
     (if can_write w output_file
      then (Inr (), w\<lparr>files := (files w)(output_file \<mapsto> writelines hits)\<rparr>)
      else (Inl (OSError output_file), w))"

text \<open>
  Lines 184 to 189 (and 103 to 108): the unique values of the accession column are
  computed, then written to the output file.
\<close>

definition write_hits :: "string \<Rightarrow> string \<Rightarrow> dataframe \<Rightarrow> world \<Rightarrow> (error + unit) \<times> world" where
  "write_hits column output_file dummy_df w =
     (case getitem dummy_df column of
        Inl e \<Rightarrow> (Inl e, w)
      | Inr col \<Rightarrow>
          (let hits = unique col
           in write_file output_file hits w))"

text \<open>Lines 135 to 138: the identifiers to submit and the string that carries them.\<close>

definition rest_input_ids :: "(string \<Rightarrow> nat) \<Rightarrow> string \<Rightarrow> string list" where
  "rest_input_ids h content = list_set h (read_lines content)"

definition rest_input_string :: "(string \<Rightarrow> nat) \<Rightarrow> string \<Rightarrow> string" where
  "rest_input_string h content = join_commas (rest_input_ids h content)"

text \<open>
  The function returns the collected frame when \<^verbatim>\<open>return_full\<close> is set and None
  otherwise.
\<close>

definition map_refseqids_rest_cfg ::
  "config \<Rightarrow> (string \<Rightarrow> nat) \<Rightarrow> service \<Rightarrow> string \<Rightarrow> string \<Rightarrow> string list \<Rightarrow> bool \<Rightarrow> world
     \<Rightarrow> (error + dataframe option) \<times> world" where
  "map_refseqids_rest_cfg cfg h svc input_file output_file query_dbs return_full w =
     (case files w input_file of
        None \<Rightarrow> (Inl (FileNotFoundError input_file), w)
      | Some content \<Rightarrow>
          (case rest_loop cfg svc (rest_input_string h content) (enumerate 0 query_dbs)
                  pd_empty w of
             (Inl e, w') \<Rightarrow> (Inl e, w')
           | (Inr dummy_df, w') \<Rightarrow>
               (case write_hits ''to'' output_file dummy_df w' of
                  (Inl e, w'') \<Rightarrow> (Inl e, w'')
                | (Inr u, w'') \<Rightarrow>
                    (Inr (if return_full then Some dummy_df else None), w''))))"

definition map_refseqids_rest ::
  "(string \<Rightarrow> nat) \<Rightarrow> service \<Rightarrow> string \<Rightarrow> string \<Rightarrow> string list \<Rightarrow> bool \<Rightarrow> world
     \<Rightarrow> (error + dataframe option) \<times> world" where
  "map_refseqids_rest = map_refseqids_rest_cfg default_config"

subsection \<open>map_refseqids_bioservices\<close>

text \<open>
  \<^verbatim>\<open>u.mapping(fr, to, query=...)\<close> belongs to the bioservices package; it is a parameter
  of the model: the \<^verbatim>\<open>results\<close> array of its answer, None when the answer has no such
  key.
\<close>

type_synonym mapping_fn = "string \<Rightarrow> string \<Rightarrow> string \<Rightarrow> row list option"

text \<open>Lines 75 to 79: the identifiers to submit.\<close>

definition bioservices_ids :: "string \<Rightarrow> string list" where
  "bioservices_ids content =
     (let ids = read_lines content
      in if length ids > 100000 then take 100000 ids else ids)"

fun bioservices_loop :: "mapping_fn \<Rightarrow> string \<Rightarrow> (nat \<times> string) list \<Rightarrow> dataframe \<Rightarrow> error + dataframe" where
  "bioservices_loop mapping query [] dummy_df = Inr dummy_df"
| "bioservices_loop mapping query ((i, db) # rest) dummy_df =
     (case mapping db ''UniProtKB'' query of
        None \<Rightarrow> Inl (KeyError ''results'')
      | Some rs \<Rightarrow>
          bioservices_loop mapping query rest (merge_step i dummy_df (json_normalize rs)))"

definition map_refseqids_bioservices ::
  "mapping_fn \<Rightarrow> string \<Rightarrow> string \<Rightarrow> string list \<Rightarrow> bool \<Rightarrow> world
     \<Rightarrow> (error + dataframe option) \<times> world" where
  "map_refseqids_bioservices mapping input_file output_file query_dbs return_full w =
     (case files w input_file of
        None \<Rightarrow> (Inl (FileNotFoundError input_file), w)
      | Some content \<Rightarrow>
          (case bioservices_loop mapping (join_commas (bioservices_ids content))
                  (enumerate 0 query_dbs) pd_empty of
             Inl e \<Rightarrow> (Inl e, w)
           | Inr dummy_df \<Rightarrow>
               (case write_hits ''to.primaryAccession'' output_file dummy_df w of
                  (Inl e, w') \<Rightarrow> (Inl e, w')
                | (Inr u, w') \<Rightarrow>
                    (Inr (if return_full then Some dummy_df else None), w'))))"

subsection \<open>Notions used in the statements\<close>

text \<open>
  A world in which no request has been issued yet and every destination but the empty
  path can be opened for writing; and one in which no destination can.
\<close>

definition no_requests :: "(string \<rightharpoonup> string) \<Rightarrow> world" where
  "no_requests fs = \<lparr>files = fs, writable = (\<lambda>path. True), requests = []\<rparr>"

definition read_only :: "(string \<rightharpoonup> string) \<Rightarrow> world" where
  "read_only fs = \<lparr>files = fs, writable = (\<lambda>path. False), requests = []\<rparr>"

text \<open>
  The persisted form of an output set, in the words of the specification: one accession
  per line, each line terminated by a line feed, no header.
\<close>

definition one_per_line :: "string list \<Rightarrow> string" where
  "one_per_line accessions = concat (map (\<lambda>a. a @ [CHR 0x0A]) accessions)"

text \<open>The job signals readiness in one of its first \<open>n\<close> status polls.\<close>

definition ready_within :: "service \<Rightarrow> string \<Rightarrow> nat \<Rightarrow> bool" where
  "ready_within svc job n \<longleftrightarrow>
     (\<exists>k\<in>set [0..<n]. ''results'' \<in> set (status_resp svc job k))"

text \<open>
  The mapping result of a source database: the rows the service streams for the job it
  opened for that database and id string (no rows when it opened none or streams none).
\<close>

definition mapping_result :: "service \<Rightarrow> string \<Rightarrow> string \<Rightarrow> row list" where
  "mapping_result svc input_string db =
     (case run_resp svc db input_string of
        None \<Rightarrow> []
      | Some job \<Rightarrow> (case stream_resp svc job of None \<Rightarrow> [] | Some rs \<Rightarrow> rs))"

text \<open>The same for bioservices: the rows \<^verbatim>\<open>u.mapping\<close> returns for a database.\<close>

definition bioservices_result :: "mapping_fn \<Rightarrow> string \<Rightarrow> string \<Rightarrow> row list" where
  "bioservices_result mapping query db =
     (case mapping db ''UniProtKB'' query of None \<Rightarrow> [] | Some rs \<Rightarrow> rs)"

text \<open>
  The order of first occurrence, in the words of the claim: the values of a column in
  column order, each later occurrence of a value already seen dropped.
\<close>

definition first_occurrences :: "string list \<Rightarrow> string list" where
  "first_occurrences xs =
     map (\<lambda>i. xs ! i) (filter (\<lambda>i. xs ! i \<notin> set (take i xs)) [0..<length xs])"

text \<open>
  The identifiers a comma-joined id string carries, as the service reads them:
  \<^verbatim>\<open>ids.split(",")\<close>.
\<close>

fun split_commas :: "string \<Rightarrow> string list" where
  "split_commas [] = [[]]"
| "split_commas (c # cs) =
     (if c = CHR '','' then [] # split_commas cs
      else (case split_commas cs of w # ws \<Rightarrow> (c # w) # ws | [] \<Rightarrow> [[c]]))"

text \<open>
  The service returns semantically identical data to the two backends: whenever two id
  strings carry the same set of identifiers, the accessions bioservices returns for the
  one (under \<^verbatim>\<open>to.primaryAccession\<close>) are the accessions the REST stream returns for
  the other (under \<^verbatim>\<open>to\<close>), for every source database.
\<close>

definition same_data :: "mapping_fn \<Rightarrow> service \<Rightarrow> bool" where
  "same_data mapping svc \<longleftrightarrow>
     (\<forall>db q q'. set (split_commas q) = set (split_commas q') \<longrightarrow>
        set (map snd (bioservices_result mapping q db)) =
        set (map snd (mapping_result svc q' db)))"

text \<open>
  Every frame the loops build has no column while it has no row, and the two columns
  \<^verbatim>\<open>from\<close> and \<open>name\<close> from the first row on.
\<close>

definition wf_frame :: "string \<Rightarrow> dataframe \<Rightarrow> bool" where
  "wf_frame name df \<longleftrightarrow>
     df_columns df = (if df_rows df = [] then [] else [''from'', name])"

subsection \<open>Example services\<close>

text \<open>
  A service that answers from a table of (identifier, accession) rows: it returns the
  rows of the identifiers submitted. Its REST side uses the id string as job id and
  signals readiness from poll \<open>n\<close> on (counted from 0).
\<close>

definition table_rows :: "row list \<Rightarrow> string \<Rightarrow> row list" where
  "table_rows table ids = filter (\<lambda>r. fst r \<in> set (split_commas ids)) table"

definition table_mapping :: "row list \<Rightarrow> mapping_fn" where
  "table_mapping table db target ids = Some (table_rows table ids)"

definition table_service :: "nat \<Rightarrow> row list \<Rightarrow> service" where
  "table_service n table =
     \<lparr>run_resp = (\<lambda>db ids. Some ids),
      status_resp = (\<lambda>job k. if n \<le> k then [''results''] else [''jobStatus'']),
      stream_resp = (\<lambda>job. Some (table_rows table job))\<rparr>"

text \<open>
  A service that answers by source database: it uses the database name as job id,
  signals readiness in the polls that satisfy \<open>ready\<close>, and streams the rows listed
  for the database (none for a database that is not listed).
\<close>

definition answering :: "(nat \<Rightarrow> bool) \<Rightarrow> (string \<times> row list) list \<Rightarrow> service" where
  "answering ready answers =
     \<lparr>run_resp = (\<lambda>db ids. Some db),
      status_resp = (\<lambda>job k. if ready k then [''results''] else [''jobStatus'']),
      stream_resp =
        (\<lambda>job. Some (case map_of answers job of None \<Rightarrow> [] | Some rs \<Rightarrow> rs))\<rparr>"

section \<open>Properties\<close>

subsection \<open>Lines\<close>

lemma splitlines_from_line:
  "\<forall>c\<in>set l. \<not> linebreak c \<Longrightarrow>
   splitlines_from cur (l @ LF # rest) = (cur @ l) # splitlines_from [] rest"
proof (induction l arbitrary: cur)
  case Nil
  show ?case by (cases rest) (simp_all add: linebreak_def LF_def CR_def)
next
  case (Cons c l)
  then show ?case by simp
qed

lemma splitlines_writelines:
  "\<forall>a\<in>set hits. \<forall>c\<in>set a. \<not> linebreak c \<Longrightarrow> splitlines (writelines hits) = hits"
  unfolding splitlines_def writelines_def
  by (induction hits) (simp_all add: splitlines_from_line)

lemma universal_newlines_no_CR: "CR \<notin> set s \<Longrightarrow> universal_newlines s = s"
  by (induction s rule: universal_newlines.induct) auto

lemma linebreak_CR: "linebreak CR"
  by (simp add: linebreak_def CR_def)

lemma CR_notin_writelines:
  "\<forall>a\<in>set hits. \<forall>c\<in>set a. \<not> linebreak c \<Longrightarrow> CR \<notin> set (writelines hits)"
  using linebreak_CR by (auto simp: writelines_def LF_def CR_def)

lemma read_lines_writelines:
  "\<forall>a\<in>set hits. \<forall>c\<in>set a. \<not> linebreak c \<Longrightarrow> read_lines (writelines hits) = hits"
  by (simp add: read_lines_def universal_newlines_no_CR CR_notin_writelines
      splitlines_writelines)

subsection \<open>The submitted identifiers\<close>

lemma set_rest_input_ids: "set (rest_input_ids h content) = set (read_lines content)"
  by (simp add: rest_input_ids_def list_set_def)

text \<open>
  C2, as the code has it. The identifiers submitted by \<^verbatim>\<open>map_refseqids_rest\<close> contain no
  duplicates, they are exactly the lines of the input file, and their number is the
  number of distinct input lines. An empty line is a line like any other: nothing
  removes it.
\<close>

theorem rest_input_ids_distinct_lines:
  "distinct (rest_input_ids h content) \<and>
   set (rest_input_ids h content) = set (read_lines content) \<and>
   length (rest_input_ids h content) = card (set (read_lines content))"
  by (simp add: rest_input_ids_def list_set_def length_remdups_card_conv)

text \<open>
  C2, as the claim states it, fails on the file with the three lines \<^verbatim>\<open>A\<close>, the empty
  line and \<^verbatim>\<open>B\<close>: the empty string is submitted, and three identifiers are submitted
  where the file has two distinct non-empty lines.
\<close>

theorem rest_input_ids_keep_empty_line:
  "\<not> (distinct (rest_input_ids length (''A'' @ [LF, LF] @ ''B'' @ [LF])) \<and>
      [] \<notin> set (rest_input_ids length (''A'' @ [LF, LF] @ ''B'' @ [LF])) \<and>
      length (rest_input_ids length (''A'' @ [LF, LF] @ ''B'' @ [LF])) =
        card (set (filter (\<lambda>l. l \<noteq> []) (read_lines (''A'' @ [LF, LF] @ ''B'' @ [LF])))))"
  by code_simp

subsection \<open>Writing and reading back\<close>

lemma writelines_one_per_line: "writelines hits = one_per_line hits"
  by (simp add: writelines_def one_per_line_def LF_def)

lemma write_file_fails:
  "\<not> can_write w output_file \<Longrightarrow> write_file output_file hits w = (Inl (OSError output_file), w)"
  by (simp add: write_file_def)

text \<open>
  C8, as the code has it. When the destination can be opened for writing, the write
  succeeds, the file holds the accessions one per line, and an output set whose
  accessions contain no line terminator is read back from it, by
  \<^verbatim>\<open>read().splitlines()\<close>, exactly as it was written: the same accessions in the same
  order, whatever the file held before.
\<close>

theorem write_read_round_trip:
  assumes "can_write w output_file"
    and "\<forall>a\<in>set hits. \<forall>c\<in>set a. \<not> linebreak c"
  shows "fst (write_file output_file hits w) = Inr () \<and>
         files (snd (write_file output_file hits w)) output_file = Some (one_per_line hits) \<and>
         map_option read_lines (files (snd (write_file output_file hits w)) output_file)
           = Some hits"
  using assms
  by (simp add: write_file_def read_lines_writelines writelines_one_per_line [symmetric])

theorem write_read_round_trip_witness:
  "fst (write_file ''out.txt'' [''A0A000'', ''A0A001'']
          (no_requests [''out.txt'' \<mapsto> ''old''])) = Inr () \<and>
   files (snd (write_file ''out.txt'' [''A0A000'', ''A0A001'']
          (no_requests [''out.txt'' \<mapsto> ''old'']))) ''out.txt''
     = Some (one_per_line [''A0A000'', ''A0A001'']) \<and>
   map_option read_lines
     (files (snd (write_file ''out.txt'' [''A0A000'', ''A0A001'']
        (no_requests [''out.txt'' \<mapsto> ''old'']))) ''out.txt'')
   = Some [''A0A000'', ''A0A001'']"
  by (rule write_read_round_trip) (simp_all add: linebreak_def can_write_def no_requests_def)

text \<open>
  C8, as the claim states it, fails on an output set with one non-empty accession that
  contains a line feed: the file is read back as two lines.
\<close>

theorem round_trip_fails_on_line_feed:
  "fst (write_file ''out.txt'' [''A'' @ [LF] @ ''B''] (no_requests Map.empty)) = Inr () \<and>
   map_option (set \<circ> read_lines)
     (files (snd (write_file ''out.txt'' [''A'' @ [LF] @ ''B''] (no_requests Map.empty)))
        ''out.txt'')
   \<noteq> Some (set [''A'' @ [LF] @ ''B''])"
  by code_simp

subsection \<open>Unique values\<close>

lemma unique_scan_append:
  "unique_scan seen (xs @ ys) = unique_scan (unique_scan seen xs) ys"
  by (induction xs arbitrary: seen) simp_all

lemma set_unique_scan: "set (unique_scan seen xs) = set seen \<union> set xs"
  by (induction xs arbitrary: seen) auto

lemma set_unique: "set (unique xs) = set xs"
  by (simp add: unique_def set_unique_scan)

lemma unique_snoc:
  "unique (xs @ [x]) = unique xs @ (if x \<in> set xs then [] else [x])"
  by (simp add: unique_def unique_scan_append set_unique_scan)

lemma first_occurrences_snoc:
  "first_occurrences (xs @ [x]) = first_occurrences xs @ (if x \<in> set xs then [] else [x])"
proof -
  have "filter (\<lambda>i. (xs @ [x]) ! i \<notin> set (take i (xs @ [x]))) [0..<length xs] =
        filter (\<lambda>i. xs ! i \<notin> set (take i xs)) [0..<length xs]"
    by (rule filter_cong) (simp_all add: nth_append)
  moreover have
    "map (\<lambda>i. (xs @ [x]) ! i) (filter (\<lambda>i. xs ! i \<notin> set (take i xs)) [0..<length xs]) =
     map (\<lambda>i. xs ! i) (filter (\<lambda>i. xs ! i \<notin> set (take i xs)) [0..<length xs])"
    by (rule map_cong) (simp_all add: nth_append)
  ultimately show ?thesis
    by (simp add: first_occurrences_def)
qed

lemma unique_first_occurrences: "unique xs = first_occurrences xs"
proof (induction xs rule: rev_induct)
  case Nil
  show ?case by (simp add: unique_def first_occurrences_def)
next
  case (snoc x xs)
  then show ?case by (simp only: unique_snoc first_occurrences_snoc)
qed

subsection \<open>Data frames of the two loops\<close>

lemma wf_frame_pd_empty: "wf_frame name pd_empty"
  by (simp add: wf_frame_def pd_empty_def)

lemma wf_frame_pd_DataFrame: "wf_frame ''to'' (pd_DataFrame rs)"
  by (simp add: wf_frame_def pd_DataFrame_def pd_empty_def)

lemma wf_frame_json_normalize: "wf_frame ''to.primaryAccession'' (json_normalize rs)"
  by (simp add: wf_frame_def json_normalize_def pd_empty_def)

lemma wf_frame_merge_step:
  "wf_frame name a \<Longrightarrow> wf_frame name b \<Longrightarrow> wf_frame name (merge_step i a b)"
  by (auto simp: wf_frame_def merge_step_def pd_concat_def len_def)

lemma getitem_wf_frame:
  "wf_frame name df \<Longrightarrow> name \<noteq> ''from'' \<Longrightarrow>
   getitem df name =
     (if df_rows df = [] then Inl (KeyError name) else Inr (map snd (df_rows df)))"
  by (auto simp: wf_frame_def getitem_def)

lemma df_rows_pd_DataFrame: "df_rows (pd_DataFrame rs) = rs"
  by (simp add: pd_DataFrame_def pd_empty_def)

lemma df_rows_json_normalize: "df_rows (json_normalize rs) = rs"
  by (simp add: json_normalize_def pd_empty_def)

lemma df_rows_merge_step:
  "i = 0 \<longrightarrow> df_rows dummy_df = [] \<Longrightarrow>
   df_rows (merge_step i dummy_df results_df) = df_rows dummy_df @ df_rows results_df"
  by (simp add: merge_step_def len_def pd_concat_def)

subsection \<open>Polling\<close>

lemma poll_tries_le:
  "tries \<le> k \<Longrightarrow> k < limit \<Longrightarrow> ''results'' \<in> set (status_resp svc job k) \<Longrightarrow>
   snd (fst (poll svc job limit repeat tries w)) \<le> Suc k"
proof (induction svc job limit repeat tries w rule: poll.induct)
  case (1 svc job limit repeat tries w)
  show ?case
  proof (cases "repeat \<and> tries < limit")
    case False
    with "1.prems" show ?thesis by (simp add: poll.simps)
  next
    case True
    show ?thesis
    proof (cases "tries = k")
      case True
      with \<open>repeat \<and> tries < limit\<close> "1.prems" show ?thesis
        by (subst poll.simps) (simp add: poll.simps [of svc job limit False])
    next
      case False
      with "1.prems" have "Suc tries \<le> k" by simp
      with "1.IH" True "1.prems" show ?thesis
        by (subst poll.simps) simp
    qed
  qed
qed

lemma poll_ready_within:
  assumes "ready_within svc job 9"
  shows "snd (fst (poll svc job 10 True 0 w)) \<noteq> 10"
proof -
  from assms obtain k where k: "k < 9" "''results'' \<in> set (status_resp svc job k)"
    by (auto simp: ready_within_def)
  then have "snd (fst (poll svc job 10 True 0 w)) \<le> Suc k"
    by (intro poll_tries_le) simp_all
  with k show ?thesis by simp
qed

text \<open>Requests leave the file system as it is.\<close>

lemma files_send: "files (send r w) = files w" "writable (send r w) = writable w"
  by (simp_all add: send_def)

lemma files_poll:
  "files (snd (poll svc job limit repeat tries w)) = files w \<and>
   writable (snd (poll svc job limit repeat tries w)) = writable w"
  by (induction svc job limit repeat tries w rule: poll.induct)
     (subst (1 2) poll.simps, simp add: files_send)

lemma files_poll_eq:
  "poll svc job limit repeat tries w = (rt, w') \<Longrightarrow>
   files w' = files w \<and> writable w' = writable w"
  using files_poll [of svc job limit repeat tries w] by simp

subsection \<open>One round of the REST loop\<close>

lemma fetch_results_ready:
  assumes "run_resp svc db q = Some job" "ready_within svc job 9"
    "stream_resp svc job = Some rs"
  shows "fst (fetch_results default_config svc q db w) = Inr (pd_DataFrame rs)"
proof -
  obtain r t w2 where p: "poll svc job 10 True 0 (send (run_request q db) w) = ((r, t), w2)"
    by (metis prod.exhaust)
  with poll_ready_within [OF assms(2), of "send (run_request q db) w"] have "t \<noteq> 10"
    by simp
  with p assms(1,3) show ?thesis
    by (simp add: fetch_results_def default_config_def REQUESTS_LIMIT_def REQUESTS_TRIES_def)
qed

lemma fetch_results_rows:
  assumes "fetch_results cfg svc q db w = (Inr results_df, w')"
  shows "df_rows results_df = mapping_result svc q db"
  using assms
  by (auto simp: fetch_results_def mapping_result_def Let_def df_rows_pd_DataFrame
      split: option.splits prod.splits if_splits)

lemma fetch_results_wf:
  "fetch_results cfg svc q db w = (Inr results_df, w') \<Longrightarrow> wf_frame ''to'' results_df"
  by (auto simp: fetch_results_def Let_def wf_frame_pd_DataFrame
      split: option.splits prod.splits if_splits)

lemma files_fetch_results:
  "files (snd (fetch_results cfg svc q db w)) = files w \<and>
   writable (snd (fetch_results cfg svc q db w)) = writable w"
  by (auto simp: fetch_results_def Let_def files_send split: option.splits prod.splits
      dest!: files_poll_eq)

subsection \<open>The REST loop\<close>

lemma rest_loop_rows:
  "rest_loop cfg svc q (enumerate n dbs) dummy_df w = (Inr df, w') \<Longrightarrow>
   n = 0 \<longrightarrow> df_rows dummy_df = [] \<Longrightarrow>
   df_rows df = df_rows dummy_df @ concat (map (mapping_result svc q) dbs)"
proof (induction dbs arbitrary: n dummy_df w)
  case Nil
  then show ?case by simp
next
  case (Cons db dbs)
  from Cons.prems(1) obtain results_df w1 where
    f: "fetch_results cfg svc q db w = (Inr results_df, w1)" and
    r: "rest_loop cfg svc q (enumerate (Suc n) dbs) (merge_step n dummy_df results_df) w1
          = (Inr df, w')"
    by (auto split: prod.splits sum.splits)
  have "df_rows df =
      df_rows (merge_step n dummy_df results_df) @ concat (map (mapping_result svc q) dbs)"
    using Cons.IH [OF r] by simp
  then show ?case
    using df_rows_merge_step [OF Cons.prems(2)] fetch_results_rows [OF f] by simp
qed

lemma rest_loop_wf:
  "rest_loop cfg svc q idbs dummy_df w = (Inr df, w') \<Longrightarrow> wf_frame ''to'' dummy_df \<Longrightarrow>
   wf_frame ''to'' df"
proof (induction idbs arbitrary: dummy_df w)
  case Nil
  then show ?case by simp
next
  case (Cons idb idbs)
  obtain i db where idb: "idb = (i, db)" by (cases idb)
  from Cons.prems(1) idb obtain results_df w1 where
    f: "fetch_results cfg svc q db w = (Inr results_df, w1)" and
    r: "rest_loop cfg svc q idbs (merge_step i dummy_df results_df) w1 = (Inr df, w')"
    by (auto split: prod.splits sum.splits)
  show ?case
    by (rule Cons.IH [OF r]) (rule wf_frame_merge_step [OF Cons.prems(2) fetch_results_wf [OF f]])
qed

lemma files_rest_loop:
  "files (snd (rest_loop cfg svc q idbs dummy_df w)) = files w \<and>
   writable (snd (rest_loop cfg svc q idbs dummy_df w)) = writable w"
proof (induction idbs arbitrary: dummy_df w)
  case Nil
  show ?case by simp
next
  case (Cons idb idbs)
  obtain i db where idb: "idb = (i, db)" by (cases idb)
  show ?case
    using files_fetch_results [of cfg svc q db w] Cons.IH
    by (auto simp: idb split: prod.splits sum.splits)
qed

lemma rest_loop_ready:
  assumes "\<forall>db\<in>set dbs. \<exists>job rs. run_resp svc db q = Some job \<and> ready_within svc job 9 \<and>
             stream_resp svc job = Some rs"
  shows "\<exists>df. fst (rest_loop default_config svc q (enumerate n dbs) dummy_df w) = Inr df"
  using assms
proof (induction dbs arbitrary: n dummy_df w)
  case Nil
  show ?case by simp
next
  case (Cons db dbs)
  then obtain job rs where j: "run_resp svc db q = Some job" "ready_within svc job 9"
      "stream_resp svc job = Some rs"
    by auto
  obtain r w1 where f: "fetch_results default_config svc q db w = (r, w1)"
    by (metis prod.exhaust)
  with fetch_results_ready [OF j, of w] have "r = Inr (pd_DataFrame rs)" by simp
  with f Cons.IH [of "Suc n" "merge_step n dummy_df (pd_DataFrame rs)" w1] Cons.prems
  show ?case by simp
qed

text \<open>
  C6. When the loop over the databases of \<^verbatim>\<open>map_refseqids_rest\<close> runs to its end, the
  collected frame holds the rows of the mapping results of the configured databases, in
  their order, and so as many rows as the mapping results have together: an empty
  result adds nothing, wherever it stands.
\<close>

theorem aggregate_row_count:
  assumes "fst (rest_loop cfg svc q (enumerate 0 dbs) pd_empty w) = Inr df"
  shows "df_rows df = concat (map (mapping_result svc q) dbs) \<and>
         len df = sum_list (map (\<lambda>db. length (mapping_result svc q db)) dbs)"
proof -
  from assms obtain w' where "rest_loop cfg svc q (enumerate 0 dbs) pd_empty w = (Inr df, w')"
    by (cases "rest_loop cfg svc q (enumerate 0 dbs) pd_empty w") simp
  then have "df_rows df = concat (map (mapping_result svc q) dbs)"
    using rest_loop_rows [of cfg svc q 0 dbs pd_empty w df w'] by (simp add: pd_empty_def)
  then show ?thesis
    by (simp add: len_def length_concat comp_def)
qed

theorem aggregate_row_count_witness:
  "fst (rest_loop default_config
          (answering (\<lambda>k. True)
             [(''RefSeq_Protein'', [(''P12345'', ''A0A000''), (''Q9Y6K9'', ''A0A001'')]),
              (''PDB'', [(''P12345'', ''A0A000'')])])
          ''P12345,Q9Y6K9''
          (enumerate 0 [''EMBL-GenBank-DDBJ_CDS'', ''RefSeq_Protein'', ''Ensembl'', ''PDB''])
          pd_empty (no_requests Map.empty))
     = Inr \<lparr>df_columns = [''from'', ''to''],
            df_rows = [(''P12345'', ''A0A000''), (''Q9Y6K9'', ''A0A001''),
                       (''P12345'', ''A0A000'')]\<rparr> \<and>
   len \<lparr>df_columns = [''from'', ''to''],
        df_rows = [(''P12345'', ''A0A000''), (''Q9Y6K9'', ''A0A001''),
                   (''P12345'', ''A0A000'')]\<rparr>
     = sum_list (map (\<lambda>db. length (mapping_result
          (answering (\<lambda>k. True)
             [(''RefSeq_Protein'', [(''P12345'', ''A0A000''), (''Q9Y6K9'', ''A0A001'')]),
              (''PDB'', [(''P12345'', ''A0A000'')])])
          ''P12345,Q9Y6K9'' db))
        [''EMBL-GenBank-DDBJ_CDS'', ''RefSeq_Protein'', ''Ensembl'', ''PDB''])"
proof -
  have run: "fst (rest_loop default_config
          (answering (\<lambda>k. True)
             [(''RefSeq_Protein'', [(''P12345'', ''A0A000''), (''Q9Y6K9'', ''A0A001'')]),
              (''PDB'', [(''P12345'', ''A0A000'')])])
          ''P12345,Q9Y6K9''
          (enumerate 0 [''EMBL-GenBank-DDBJ_CDS'', ''RefSeq_Protein'', ''Ensembl'', ''PDB''])
          pd_empty (no_requests Map.empty))
     = Inr \<lparr>df_columns = [''from'', ''to''],
            df_rows = [(''P12345'', ''A0A000''), (''Q9Y6K9'', ''A0A001''),
                       (''P12345'', ''A0A000'')]\<rparr>"
    by code_simp
  from aggregate_row_count [OF run] run show ?thesis by blast
qed

subsection \<open>The whole of map_refseqids_rest\<close>

text \<open>
  What a run does when every job signals readiness within its first nine polls: with no
  row at all it ends in the KeyError of \<^verbatim>\<open>dummy_df["to"]\<close> and writes nothing; with rows
  it writes the unique accessions of the collected rows, or ends in the OSError of
  \<^verbatim>\<open>open\<close> when the destination cannot be opened.
\<close>

lemma map_refseqids_rest_ready:
  assumes inp: "files w input_file = Some content"
    and ready: "\<forall>db\<in>set query_dbs. \<exists>job rs.
        run_resp svc db (rest_input_string h content) = Some job \<and> ready_within svc job 9 \<and>
        stream_resp svc job = Some rs"
    and rows: "rows = concat (map (mapping_result svc (rest_input_string h content)) query_dbs)"
  shows "fst (map_refseqids_rest h svc input_file output_file query_dbs return_full w) =
           (if rows = [] then Inl (KeyError ''to'')
            else if \<not> can_write w output_file then Inl (OSError output_file)
            else Inr (if return_full then Some \<lparr>df_columns = [''from'', ''to''], df_rows = rows\<rparr>
                      else None))"
    and "files (snd (map_refseqids_rest h svc input_file output_file query_dbs return_full w)) =
           (if rows = [] \<or> \<not> can_write w output_file then files w
            else (files w)(output_file \<mapsto> writelines (unique (map snd rows))))"
proof -
  let ?q = "rest_input_string h content"
  obtain r w1 where
    l: "rest_loop default_config svc ?q (enumerate 0 query_dbs) pd_empty w = (r, w1)"
    by (metis prod.exhaust)
  from rest_loop_ready [OF ready, of 0 pd_empty w] l obtain df where r: "r = Inr df"
    by auto
  have w1: "files w1 = files w" "can_write w1 output_file = can_write w output_file"
    using files_rest_loop [of default_config svc ?q "enumerate 0 query_dbs" pd_empty w] l
    by (simp_all add: can_write_def)
  have wf: "wf_frame ''to'' df"
    using rest_loop_wf [OF l [unfolded r] wf_frame_pd_empty] .
  have dr: "df_rows df = rows"
    using rest_loop_rows [OF l [unfolded r]] rows by (simp add: pd_empty_def)
  have df: "rows \<noteq> [] \<Longrightarrow> df = \<lparr>df_columns = [''from'', ''to''], df_rows = rows\<rparr>"
    using wf dr by (cases df) (simp add: wf_frame_def)
  show "fst (map_refseqids_rest h svc input_file output_file query_dbs return_full w) =
           (if rows = [] then Inl (KeyError ''to'')
            else if \<not> can_write w output_file then Inl (OSError output_file)
            else Inr (if return_full then Some \<lparr>df_columns = [''from'', ''to''], df_rows = rows\<rparr>
                      else None))"
    using inp l r dr df w1(2)
    by (simp add: map_refseqids_rest_def map_refseqids_rest_cfg_def write_hits_def
        getitem_wf_frame [OF wf] write_file_def)
  show "files (snd (map_refseqids_rest h svc input_file output_file query_dbs return_full w)) =
           (if rows = [] \<or> \<not> can_write w output_file then files w
            else (files w)(output_file \<mapsto> writelines (unique (map snd rows))))"
    using inp l r dr w1
    by (simp add: map_refseqids_rest_def map_refseqids_rest_cfg_def write_hits_def
        getitem_wf_frame [OF wf] write_file_def)
qed

lemma map_refseqids_rest_writes:
  assumes "files w input_file = Some content"
    and "\<forall>db\<in>set query_dbs. \<exists>job rs.
        run_resp svc db (rest_input_string h content) = Some job \<and> ready_within svc job 9 \<and>
        stream_resp svc job = Some rs"
    and "rows = concat (map (mapping_result svc (rest_input_string h content)) query_dbs)"
    and "rows \<noteq> []"
    and "can_write w output_file"
  shows "files (snd (map_refseqids_rest h svc input_file output_file query_dbs return_full w))
           output_file = Some (one_per_line (unique (map snd rows)))"
  using map_refseqids_rest_ready(2) [OF assms(1,2,3)] assms(4,5)
  by (simp add: writelines_one_per_line)

text \<open>
  C7. The input file holds the lines \<^verbatim>\<open>P12345\<close>, \<^verbatim>\<open>P12345\<close>, \<^verbatim>\<open>Q9Y6K9\<close>; two
  databases are configured; the job of the first returns the pairs (P12345, A0A000) and
  (Q9Y6K9, A0A001), the job of the second returns no row, both jobs signal readiness
  within their first nine polls, and the output file can be opened for writing. Then
  \<^verbatim>\<open>map_refseqids_rest\<close> ends without error and the output file holds exactly the two
  lines \<^verbatim>\<open>A0A000\<close> and \<^verbatim>\<open>A0A001\<close>, each once.
\<close>

theorem scenario_two_databases:
  assumes "files w input_file = Some content"
    and "read_lines content = [''P12345'', ''P12345'', ''Q9Y6K9'']"
    and "run_resp svc db1 (rest_input_string h content) = Some job1"
    and "run_resp svc db2 (rest_input_string h content) = Some job2"
    and "ready_within svc job1 9"
    and "ready_within svc job2 9"
    and "stream_resp svc job1 = Some [(''P12345'', ''A0A000''), (''Q9Y6K9'', ''A0A001'')]"
    and "stream_resp svc job2 = Some []"
    and "can_write w output_file"
  shows "fst (map_refseqids_rest h svc input_file output_file [db1, db2] False w) = Inr None \<and>
         files (snd (map_refseqids_rest h svc input_file output_file [db1, db2] False w))
           output_file = Some (''A0A000'' @ [CHR 0x0A] @ ''A0A001'' @ [CHR 0x0A]) \<and>
         map_option read_lines
           (files (snd (map_refseqids_rest h svc input_file output_file [db1, db2] False w))
              output_file) = Some [''A0A000'', ''A0A001'']"
proof -
  let ?rows = "[(''P12345'', ''A0A000''), (''Q9Y6K9'', ''A0A001'')]"
  have ready: "\<forall>db\<in>set [db1, db2]. \<exists>job rs.
      run_resp svc db (rest_input_string h content) = Some job \<and> ready_within svc job 9 \<and>
      stream_resp svc job = Some rs"
    using assms(3-8) by simp
  have rows: "?rows = concat (map (mapping_result svc (rest_input_string h content)) [db1, db2])"
    using assms(3,4,7,8) by (simp add: mapping_result_def)
  have u: "unique (map snd ?rows) = [''A0A000'', ''A0A001'']"
    by (simp add: unique_def)
  have written:
    "writelines [''A0A000'', ''A0A001''] = ''A0A000'' @ [CHR 0x0A] @ ''A0A001'' @ [CHR 0x0A]"
    by (simp add: writelines_def LF_def)
  have reread: "read_lines (writelines [''A0A000'', ''A0A001'']) = [''A0A000'', ''A0A001'']"
    by (rule read_lines_writelines) (simp add: linebreak_def)
  have "fst (map_refseqids_rest h svc input_file output_file [db1, db2] False w) = Inr None"
    using map_refseqids_rest_ready(1) [OF assms(1) ready rows, of output_file False] assms(9)
    by simp
  moreover have "files (snd (map_refseqids_rest h svc input_file output_file [db1, db2] False w))
      output_file = Some (writelines [''A0A000'', ''A0A001''])"
    using map_refseqids_rest_ready(2) [OF assms(1) ready rows, of output_file False] assms(9) u
    by simp
  ultimately show ?thesis
    using reread by (simp only: written [symmetric] option.map simp_thms)
qed

theorem scenario_two_databases_witness:
  "fst (map_refseqids_rest length
     (answering (\<lambda>k. True)
        [(''EMBL-GenBank-DDBJ_CDS'', [(''P12345'', ''A0A000''), (''Q9Y6K9'', ''A0A001'')]),
         (''RefSeq_Protein'', [])])
     ''in.txt'' ''out.txt'' [''EMBL-GenBank-DDBJ_CDS'', ''RefSeq_Protein''] False
     (no_requests [''in.txt'' \<mapsto> writelines [''P12345'', ''P12345'', ''Q9Y6K9'']])) = Inr None \<and>
   files (snd (map_refseqids_rest length
     (answering (\<lambda>k. True)
        [(''EMBL-GenBank-DDBJ_CDS'', [(''P12345'', ''A0A000''), (''Q9Y6K9'', ''A0A001'')]),
         (''RefSeq_Protein'', [])])
     ''in.txt'' ''out.txt'' [''EMBL-GenBank-DDBJ_CDS'', ''RefSeq_Protein''] False
     (no_requests [''in.txt'' \<mapsto> writelines [''P12345'', ''P12345'', ''Q9Y6K9'']])))
     ''out.txt'' = Some (''A0A000'' @ [CHR 0x0A] @ ''A0A001'' @ [CHR 0x0A]) \<and>
   map_option read_lines
     (files (snd (map_refseqids_rest length
        (answering (\<lambda>k. True)
           [(''EMBL-GenBank-DDBJ_CDS'', [(''P12345'', ''A0A000''), (''Q9Y6K9'', ''A0A001'')]),
            (''RefSeq_Protein'', [])])
        ''in.txt'' ''out.txt'' [''EMBL-GenBank-DDBJ_CDS'', ''RefSeq_Protein''] False
        (no_requests [''in.txt'' \<mapsto> writelines [''P12345'', ''P12345'', ''Q9Y6K9'']])))
        ''out.txt'') = Some [''A0A000'', ''A0A001'']"
proof (rule scenario_two_databases)
  let ?content = "writelines [''P12345'', ''P12345'', ''Q9Y6K9'']"
  let ?svc = "answering (\<lambda>k. True)
        [(''EMBL-GenBank-DDBJ_CDS'', [(''P12345'', ''A0A000''), (''Q9Y6K9'', ''A0A001'')]),
         (''RefSeq_Protein'', [])]"
  show "files (no_requests [''in.txt'' \<mapsto> ?content]) ''in.txt'' = Some ?content"
    by (simp add: no_requests_def)
  show "read_lines ?content = [''P12345'', ''P12345'', ''Q9Y6K9'']"
    by (rule read_lines_writelines) (simp add: linebreak_def)
  show "run_resp ?svc ''EMBL-GenBank-DDBJ_CDS'' (rest_input_string length ?content)
      = Some ''EMBL-GenBank-DDBJ_CDS''"
    by (simp add: answering_def)
  show "run_resp ?svc ''RefSeq_Protein'' (rest_input_string length ?content)
      = Some ''RefSeq_Protein''"
    by (simp add: answering_def)
  show "ready_within ?svc ''EMBL-GenBank-DDBJ_CDS'' 9"
    by code_simp
  show "ready_within ?svc ''RefSeq_Protein'' 9"
    by code_simp
  show "stream_resp ?svc ''EMBL-GenBank-DDBJ_CDS''
      = Some [(''P12345'', ''A0A000''), (''Q9Y6K9'', ''A0A001'')]"
    by (simp add: answering_def)
  show "stream_resp ?svc ''RefSeq_Protein'' = Some []"
    by (simp add: answering_def)
  show "can_write (no_requests [''in.txt'' \<mapsto> ?content]) ''out.txt''"
    by (simp add: can_write_def no_requests_def)
qed

text \<open>
  The same scenario with a destination that cannot be opened, the empty path or a path
  in a missing directory: the run ends in the OSError of \<^verbatim>\<open>open\<close> and no file is
  written.
\<close>

lemma scenario_destination_not_writable:
  "fst (map_refseqids_rest length
     (answering (\<lambda>k. True)
        [(''EMBL-GenBank-DDBJ_CDS'', [(''P12345'', ''A0A000''), (''Q9Y6K9'', ''A0A001'')]),
         (''RefSeq_Protein'', [])])
     ''in.txt'' [] [''EMBL-GenBank-DDBJ_CDS'', ''RefSeq_Protein''] False
     (no_requests [''in.txt'' \<mapsto> ''P12345''])) = Inl (OSError []) \<and>
   fst (map_refseqids_rest length
     (answering (\<lambda>k. True)
        [(''EMBL-GenBank-DDBJ_CDS'', [(''P12345'', ''A0A000''), (''Q9Y6K9'', ''A0A001'')]),
         (''RefSeq_Protein'', [])])
     ''in.txt'' ''missing/out.txt'' [''EMBL-GenBank-DDBJ_CDS'', ''RefSeq_Protein''] False
     (read_only [''in.txt'' \<mapsto> ''P12345''])) = Inl (OSError ''missing/out.txt'') \<and>
   files (snd (map_refseqids_rest length
     (answering (\<lambda>k. True)
        [(''EMBL-GenBank-DDBJ_CDS'', [(''P12345'', ''A0A000''), (''Q9Y6K9'', ''A0A001'')]),
         (''RefSeq_Protein'', [])])
     ''in.txt'' ''missing/out.txt'' [''EMBL-GenBank-DDBJ_CDS'', ''RefSeq_Protein''] False
     (read_only [''in.txt'' \<mapsto> ''P12345'']))) ''missing/out.txt'' = None"
  by code_simp

text \<open>
  C10. Whenever \<^verbatim>\<open>map_refseqids_rest\<close> ends without error, with \<^verbatim>\<open>return_full\<close> set or
  not, the loop over the databases has built an aggregate table (the one returned when
  \<^verbatim>\<open>return_full\<close> is set) whose rows are the mapping results in configured order, and the
  output file holds, one per line, the accessions of the table's \<^verbatim>\<open>to\<close> column in the
  order of their first occurrence, each later occurrence dropped: the written text is a
  function of the row order of the table.
\<close>

theorem output_in_first_occurrence_order:
  assumes "fst (map_refseqids_rest h svc input_file output_file query_dbs return_full w) = Inr r"
  shows "\<exists>content df.
      files w input_file = Some content \<and>
      fst (rest_loop default_config svc (rest_input_string h content) (enumerate 0 query_dbs)
             pd_empty w) = Inr df \<and>
      df_rows df = concat (map (mapping_result svc (rest_input_string h content)) query_dbs) \<and>
      r = (if return_full then Some df else None) \<and>
      files (snd (map_refseqids_rest h svc input_file output_file query_dbs return_full w))
        output_file
        = Some (concat (map (\<lambda>a. a @ [CHR 0x0A]) (first_occurrences (map snd (df_rows df)))))"
proof -
  let ?cfg = default_config
  from assms obtain content where c: "files w input_file = Some content"
    by (auto simp: map_refseqids_rest_def map_refseqids_rest_cfg_def split: option.splits)
  obtain l w1 where
    l: "rest_loop ?cfg svc (rest_input_string h content) (enumerate 0 query_dbs) pd_empty w
          = (l, w1)"
    by (metis prod.exhaust)
  with assms c obtain df where df: "l = Inr df"
    by (cases l) (auto simp: map_refseqids_rest_def map_refseqids_rest_cfg_def)
  have wf: "wf_frame ''to'' df"
    using rest_loop_wf [OF l [unfolded df] wf_frame_pd_empty] .
  have rows: "df_rows df =
      concat (map (mapping_result svc (rest_input_string h content)) query_dbs)"
    using rest_loop_rows [OF l [unfolded df]] by (simp add: pd_empty_def)
  from assms c l df have ok: "df_rows df \<noteq> []" "can_write w1 output_file"
      "r = (if return_full then Some df else None)"
    by (auto simp: map_refseqids_rest_def map_refseqids_rest_cfg_def write_hits_def
        write_file_def getitem_wf_frame [OF wf] split: if_splits)
  have "files (snd (map_refseqids_rest h svc input_file output_file query_dbs return_full w))
      output_file
      = Some (concat (map (\<lambda>a. a @ [CHR 0x0A]) (first_occurrences (map snd (df_rows df)))))"
    using c l df ok(1,2)
    by (simp add: map_refseqids_rest_def map_refseqids_rest_cfg_def write_hits_def
        getitem_wf_frame [OF wf] write_file_def unique_first_occurrences writelines_def LF_def)
  with c l df rows ok(3) show ?thesis by simp
qed

theorem output_in_first_occurrence_order_witness:
  "\<exists>content df.
      files (no_requests [''in.txt'' \<mapsto> ''P1'']) ''in.txt'' = Some content \<and>
      fst (rest_loop default_config
             (answering (\<lambda>k. True)
                [(''EMBL-GenBank-DDBJ_CDS'', [(''P1'', ''B''), (''P2'', ''A'')]),
                 (''RefSeq_Protein'', [(''P3'', ''B''), (''P4'', ''C''), (''P5'', ''A'')])])
             (rest_input_string length content)
             (enumerate 0 [''EMBL-GenBank-DDBJ_CDS'', ''RefSeq_Protein''])
             pd_empty (no_requests [''in.txt'' \<mapsto> ''P1''])) = Inr df \<and>
      df_rows df = concat (map (mapping_result
             (answering (\<lambda>k. True)
                [(''EMBL-GenBank-DDBJ_CDS'', [(''P1'', ''B''), (''P2'', ''A'')]),
                 (''RefSeq_Protein'', [(''P3'', ''B''), (''P4'', ''C''), (''P5'', ''A'')])])
             (rest_input_string length content))
           [''EMBL-GenBank-DDBJ_CDS'', ''RefSeq_Protein'']) \<and>
      None = (if False then Some df else None) \<and>
      files (snd (map_refseqids_rest length
             (answering (\<lambda>k. True)
                [(''EMBL-GenBank-DDBJ_CDS'', [(''P1'', ''B''), (''P2'', ''A'')]),
                 (''RefSeq_Protein'', [(''P3'', ''B''), (''P4'', ''C''), (''P5'', ''A'')])])
             ''in.txt'' ''out.txt'' [''EMBL-GenBank-DDBJ_CDS'', ''RefSeq_Protein''] False
             (no_requests [''in.txt'' \<mapsto> ''P1''])))
        ''out.txt''
        = Some (concat (map (\<lambda>a. a @ [CHR 0x0A]) (first_occurrences (map snd (df_rows df)))))"
proof (rule output_in_first_occurrence_order)
  show "fst (map_refseqids_rest length
             (answering (\<lambda>k. True)
                [(''EMBL-GenBank-DDBJ_CDS'', [(''P1'', ''B''), (''P2'', ''A'')]),
                 (''RefSeq_Protein'', [(''P3'', ''B''), (''P4'', ''C''), (''P5'', ''A'')])])
             ''in.txt'' ''out.txt'' [''EMBL-GenBank-DDBJ_CDS'', ''RefSeq_Protein''] False
             (no_requests [''in.txt'' \<mapsto> ''P1''])) = Inr None"
    by code_simp
qed

text \<open>
  The run of the witness, evaluated: the column \<^verbatim>\<open>B A B C A\<close> is written as the three
  lines \<^verbatim>\<open>B\<close>, \<^verbatim>\<open>A\<close>, \<^verbatim>\<open>C\<close>, in both modes.
\<close>

lemma first_occurrence_order_example:
  "files (snd (map_refseqids_rest length
             (answering (\<lambda>k. True)
                [(''EMBL-GenBank-DDBJ_CDS'', [(''P1'', ''B''), (''P2'', ''A'')]),
                 (''RefSeq_Protein'', [(''P3'', ''B''), (''P4'', ''C''), (''P5'', ''A'')])])
             ''in.txt'' ''out.txt'' [''EMBL-GenBank-DDBJ_CDS'', ''RefSeq_Protein''] False
             (no_requests [''in.txt'' \<mapsto> ''P1''])))
        ''out.txt''
     = Some (''B'' @ [CHR 0x0A] @ ''A'' @ [CHR 0x0A] @ ''C'' @ [CHR 0x0A]) \<and>
   files (snd (map_refseqids_rest length
             (answering (\<lambda>k. True)
                [(''EMBL-GenBank-DDBJ_CDS'', [(''P1'', ''B''), (''P2'', ''A'')]),
                 (''RefSeq_Protein'', [(''P3'', ''B''), (''P4'', ''C''), (''P5'', ''A'')])])
             ''in.txt'' ''out.txt'' [''EMBL-GenBank-DDBJ_CDS'', ''RefSeq_Protein''] True
             (no_requests [''in.txt'' \<mapsto> ''P1''])))
        ''out.txt''
     = Some (''B'' @ [CHR 0x0A] @ ''A'' @ [CHR 0x0A] @ ''C'' @ [CHR 0x0A])"
  by code_simp

subsection \<open>The whole of map_refseqids_bioservices\<close>

lemma bioservices_loop_wf:
  "bioservices_loop mapping q idbs dummy_df = Inr df \<Longrightarrow>
   wf_frame ''to.primaryAccession'' dummy_df \<Longrightarrow> wf_frame ''to.primaryAccession'' df"
proof (induction idbs arbitrary: dummy_df)
  case Nil
  then show ?case by simp
next
  case (Cons idb idbs)
  obtain i db where idb: "idb = (i, db)" by (cases idb)
  from Cons.prems(1) idb obtain rs where
    m: "mapping db ''UniProtKB'' q = Some rs" and
    r: "bioservices_loop mapping q idbs (merge_step i dummy_df (json_normalize rs)) = Inr df"
    by (auto split: option.splits)
  show ?case
    by (rule Cons.IH [OF r])
       (rule wf_frame_merge_step [OF Cons.prems(2) wf_frame_json_normalize])
qed

lemma bioservices_loop_rows:
  "bioservices_loop mapping q (enumerate n dbs) dummy_df = Inr df \<Longrightarrow>
   n = 0 \<longrightarrow> df_rows dummy_df = [] \<Longrightarrow>
   df_rows df = df_rows dummy_df @ concat (map (bioservices_result mapping q) dbs)"
proof (induction dbs arbitrary: n dummy_df)
  case Nil
  then show ?case by simp
next
  case (Cons db dbs)
  from Cons.prems(1) obtain rs where
    m: "mapping db ''UniProtKB'' q = Some rs" and
    r: "bioservices_loop mapping q (enumerate (Suc n) dbs)
          (merge_step n dummy_df (json_normalize rs)) = Inr df"
    by (auto split: option.splits)
  have "df_rows df = df_rows (merge_step n dummy_df (json_normalize rs)) @
          concat (map (bioservices_result mapping q) dbs)"
    using Cons.IH [OF r] by simp
  then show ?case
    using df_rows_merge_step [OF Cons.prems(2), of "json_normalize rs"] m
    by (simp add: bioservices_result_def [of mapping q db] df_rows_json_normalize)
qed

lemma bioservices_loop_answers:
  assumes "\<forall>db\<in>set dbs. \<exists>rs. mapping db ''UniProtKB'' q = Some rs"
  shows "\<exists>df. bioservices_loop mapping q (enumerate n dbs) dummy_df = Inr df"
  using assms by (induction dbs arbitrary: n dummy_df) auto

text \<open>
  What a run does when bioservices answers for every database: with no row at all it
  ends in the KeyError of \<^verbatim>\<open>dummy_df["to.primaryAccession"]\<close> and writes nothing; with
  rows it writes the unique accessions of the collected rows, or ends in the OSError of
  \<^verbatim>\<open>open\<close> when the destination cannot be opened.
\<close>

lemma map_refseqids_bioservices_answers:
  assumes inp: "files w input_file = Some content"
    and answers: "\<forall>db\<in>set query_dbs. \<exists>rs.
        mapping db ''UniProtKB'' (join_commas (bioservices_ids content)) = Some rs"
    and rows: "rows = concat (map (bioservices_result mapping
                 (join_commas (bioservices_ids content))) query_dbs)"
  shows "fst (map_refseqids_bioservices mapping input_file output_file query_dbs return_full w) =
           (if rows = [] then Inl (KeyError ''to.primaryAccession'')
            else if \<not> can_write w output_file then Inl (OSError output_file)
            else Inr (if return_full
                      then Some \<lparr>df_columns = [''from'', ''to.primaryAccession''], df_rows = rows\<rparr>
                      else None))"
    and "files (snd (map_refseqids_bioservices mapping input_file output_file query_dbs
                       return_full w)) =
           (if rows = [] \<or> \<not> can_write w output_file then files w
            else (files w)(output_file \<mapsto> writelines (unique (map snd rows))))"
proof -
  let ?q = "join_commas (bioservices_ids content)"
  from bioservices_loop_answers [of query_dbs mapping ?q 0 pd_empty] answers obtain df where
    l: "bioservices_loop mapping ?q (enumerate 0 query_dbs) pd_empty = Inr df"
    by auto
  have wf: "wf_frame ''to.primaryAccession'' df"
    using bioservices_loop_wf [OF l wf_frame_pd_empty] .
  have dr: "df_rows df = rows"
    using bioservices_loop_rows [OF l] rows by (simp add: pd_empty_def)
  have df: "rows \<noteq> [] \<Longrightarrow>
      df = \<lparr>df_columns = [''from'', ''to.primaryAccession''], df_rows = rows\<rparr>"
    using wf dr by (cases df) (simp add: wf_frame_def)
  show "fst (map_refseqids_bioservices mapping input_file output_file query_dbs return_full w) =
           (if rows = [] then Inl (KeyError ''to.primaryAccession'')
            else if \<not> can_write w output_file then Inl (OSError output_file)
            else Inr (if return_full
                      then Some \<lparr>df_columns = [''from'', ''to.primaryAccession''], df_rows = rows\<rparr>
                      else None))"
    using inp l dr df
    by (simp add: map_refseqids_bioservices_def write_hits_def getitem_wf_frame [OF wf]
        write_file_def)
  show "files (snd (map_refseqids_bioservices mapping input_file output_file query_dbs
                      return_full w)) =
           (if rows = [] \<or> \<not> can_write w output_file then files w
            else (files w)(output_file \<mapsto> writelines (unique (map snd rows))))"
    using inp l dr
    by (simp add: map_refseqids_bioservices_def write_hits_def getitem_wf_frame [OF wf]
        write_file_def)
qed

lemma map_refseqids_bioservices_writes:
  assumes "files w input_file = Some content"
    and "\<forall>db\<in>set query_dbs. \<exists>rs.
        mapping db ''UniProtKB'' (join_commas (bioservices_ids content)) = Some rs"
    and "rows = concat (map (bioservices_result mapping
                 (join_commas (bioservices_ids content))) query_dbs)"
    and "rows \<noteq> []"
    and "can_write w output_file"
  shows "files (snd (map_refseqids_bioservices mapping input_file output_file query_dbs
                       return_full w))
           output_file = Some (one_per_line (unique (map snd rows)))"
  using map_refseqids_bioservices_answers(2) [OF assms(1,2,3)] assms(4,5)
  by (simp add: writelines_one_per_line)

subsection \<open>The identifiers an id string carries\<close>

lemma split_commas_not_Nil: "split_commas s \<noteq> []"
  by (induction s) (auto split: list.splits)

lemma split_commas_append:
  "split_commas (a @ CHR '','' # b) = split_commas a @ split_commas b"
proof (induction a)
  case Nil
  show ?case by simp
next
  case (Cons c a)
  then show ?case
    using split_commas_not_Nil [of a] by (auto split: list.splits)
qed

lemma split_join_commas:
  "xs \<noteq> [] \<Longrightarrow> split_commas (join_commas xs) = concat (map split_commas xs)"
proof (induction xs rule: join_commas.induct)
  case 1
  then show ?case by simp
next
  case (2 x)
  show ?case by simp
next
  case (3 x y ys)
  then show ?case by (simp add: split_commas_append)
qed

lemma set_split_join_commas:
  "set xs = set ys \<Longrightarrow>
   set (split_commas (join_commas xs)) = set (split_commas (join_commas ys))"
proof (cases "xs = []")
  case True
  assume "set xs = set ys"
  with True show ?thesis by simp
next
  case False
  assume s: "set xs = set ys"
  with False have "ys \<noteq> []" by auto
  with False s show ?thesis by (simp add: split_join_commas)
qed

subsection \<open>The two backends\<close>

lemma same_data_table: "same_data (table_mapping t) (table_service n t)"
  by (simp add: same_data_def table_mapping_def table_service_def bioservices_result_def
      mapping_result_def table_rows_def)

lemma ready_within_table: "ready_within (table_service 0 t) job 9"
  by (simp add: ready_within_def table_service_def) (rule exI [of _ 0], simp)

lemma table_service_ready:
  "\<forall>db\<in>set dbs. \<exists>job rs. run_resp (table_service 0 t) db q = Some job \<and>
     ready_within (table_service 0 t) job 9 \<and> stream_resp (table_service 0 t) job = Some rs"
  using ready_within_table by (simp add: table_service_def)

lemma table_service_result: "mapping_result (table_service n t) q db = table_rows t q"
  by (simp add: mapping_result_def table_service_def)

text \<open>
  C4, as the code has it. Take an input file of at most 100,000 lines, a service that
  returns semantically identical data to the two backends, a \<^verbatim>\<open>results\<close> array from
  bioservices for every configured database, for every configured database a REST
  ticket with a \<^verbatim>\<open>jobId\<close>, a job that signals readiness within its first nine polls and a
  stream with a \<^verbatim>\<open>results\<close> array, at least one configured database with a row, and an
  output file that can be opened for writing. Then both backends write the output file,
  one accession per line, and the two files hold the same set of canonical accessions.
\<close>

theorem backends_write_same_accessions:
  assumes inp: "files w input_file = Some content"
    and cap: "length (read_lines content) \<le> 100000"
    and same: "same_data mapping svc"
    and answers: "\<forall>db\<in>set query_dbs. \<exists>rs.
        mapping db ''UniProtKB'' (join_commas (bioservices_ids content)) = Some rs"
    and ready: "\<forall>db\<in>set query_dbs. \<exists>job rs.
        run_resp svc db (rest_input_string h content) = Some job \<and> ready_within svc job 9 \<and>
        stream_resp svc job = Some rs"
    and some: "\<exists>db\<in>set query_dbs. mapping_result svc (rest_input_string h content) db \<noteq> []"
    and dest: "can_write w output_file"
  shows "\<exists>hits hits'.
      files (snd (map_refseqids_bioservices mapping input_file output_file query_dbs full w))
        output_file = Some (one_per_line hits) \<and>
      files (snd (map_refseqids_rest h svc input_file output_file query_dbs full w))
        output_file = Some (one_per_line hits') \<and>
      set hits = set hits'"
proof -
  let ?qb = "join_commas (bioservices_ids content)"
  let ?qr = "rest_input_string h content"
  let ?rb = "concat (map (bioservices_result mapping ?qb) query_dbs)"
  let ?rr = "concat (map (mapping_result svc ?qr) query_dbs)"
  have "bioservices_ids content = read_lines content"
    using cap by (simp add: bioservices_ids_def)
  then have "set (split_commas ?qb) = set (split_commas ?qr)"
    unfolding rest_input_string_def
    by (intro set_split_join_commas) (simp add: set_rest_input_ids)
  with same have each: "set (map snd (bioservices_result mapping ?qb db)) =
      set (map snd (mapping_result svc ?qr db))" for db
    by (simp add: same_data_def)
  have eq: "set (map snd ?rb) = set (map snd ?rr)"
    using each by (simp add: map_concat comp_def)
  from some have rr: "?rr \<noteq> []" by auto
  have rb: "?rb \<noteq> []"
  proof
    assume "?rb = []"
    then have "set (map snd ?rb) = {}" by (simp only: list.map set_empty)
    with eq have "map snd ?rr = []" by (simp only: set_empty2)
    with rr show False by (simp only: map_is_Nil_conv)
  qed
  have b: "files (snd (map_refseqids_bioservices mapping input_file output_file query_dbs full w))
      output_file = Some (one_per_line (unique (map snd ?rb)))"
    by (rule map_refseqids_bioservices_writes [of w input_file content query_dbs mapping])
       (use inp answers rb dest in blast)+
  have r: "files (snd (map_refseqids_rest h svc input_file output_file query_dbs full w))
      output_file = Some (one_per_line (unique (map snd ?rr)))"
    by (rule map_refseqids_rest_writes [of w input_file content query_dbs svc h])
       (use inp ready rr dest in blast)+
  from eq have "set (unique (map snd ?rb)) = set (unique (map snd ?rr))"
    by (simp only: set_unique)
  with b r show ?thesis by blast
qed

theorem backends_write_same_accessions_witness:
  "\<exists>hits hits'.
      files (snd (map_refseqids_bioservices
                    (table_mapping [(''P12345'', ''A0A000''), (''Q9Y6K9'', ''A0A001'')])
                    ''in.txt'' ''out.txt'' DEFAULT_DBS False
                    (no_requests [''in.txt'' \<mapsto> writelines [''P12345'', ''P12345'', ''Q9Y6K9'']])))
        ''out.txt'' = Some (one_per_line hits) \<and>
      files (snd (map_refseqids_rest length
                    (table_service 0 [(''P12345'', ''A0A000''), (''Q9Y6K9'', ''A0A001'')])
                    ''in.txt'' ''out.txt'' DEFAULT_DBS False
                    (no_requests [''in.txt'' \<mapsto> writelines [''P12345'', ''P12345'', ''Q9Y6K9'']])))
        ''out.txt'' = Some (one_per_line hits') \<and>
      set hits = set hits'"
proof (rule backends_write_same_accessions)
  let ?content = "writelines [''P12345'', ''P12345'', ''Q9Y6K9'']"
  let ?t = "[(''P12345'', ''A0A000''), (''Q9Y6K9'', ''A0A001'')]"
  show "files (no_requests [''in.txt'' \<mapsto> ?content]) ''in.txt'' = Some ?content"
    by (simp add: no_requests_def)
  show "length (read_lines ?content) \<le> 100000"
    by (simp add: read_lines_writelines linebreak_def)
  show "same_data (table_mapping ?t) (table_service 0 ?t)"
    by (rule same_data_table)
  show "\<forall>db\<in>set DEFAULT_DBS. \<exists>rs.
      table_mapping ?t db ''UniProtKB'' (join_commas (bioservices_ids ?content)) = Some rs"
    by (simp add: table_mapping_def)
  show "\<forall>db\<in>set DEFAULT_DBS. \<exists>job rs.
      run_resp (table_service 0 ?t) db (rest_input_string length ?content) = Some job \<and>
      ready_within (table_service 0 ?t) job 9 \<and> stream_resp (table_service 0 ?t) job = Some rs"
    by (rule table_service_ready)
  show "\<exists>db\<in>set DEFAULT_DBS.
      mapping_result (table_service 0 ?t) (rest_input_string length ?content) db \<noteq> []"
    by code_simp
  show "can_write (no_requests [''in.txt'' \<mapsto> ?content]) ''out.txt''"
    by (simp add: can_write_def no_requests_def)
qed

text \<open>
  Facts about two example runs in which the backends are compared: a file of \<open>n\<close> lines
  \<^verbatim>\<open>A\<close> followed by one line \<^verbatim>\<open>B\<close>, and a file of the single line \<^verbatim>\<open>P12345\<close>.
\<close>

lemma cap_lines:
  "read_lines (writelines (replicate n ''A'' @ [''B''])) = replicate n ''A'' @ [''B'']"
  by (rule read_lines_writelines) (auto simp: linebreak_def)

lemma cap_bioservices_ids:
  "bioservices_ids (writelines (replicate 100000 ''A'' @ [''B''])) = replicate 100000 ''A''"
  by (simp add: bioservices_ids_def cap_lines)

lemma cap_bioservices_query:
  assumes "0 < n" "bioservices_ids content = replicate n ''A''"
  shows "set (split_commas (join_commas (bioservices_ids content))) = {''A''}"
proof -
  from assms(1) have "replicate n ''A'' \<noteq> []" by simp
  then have "split_commas (join_commas (replicate n ''A'')) =
      concat (map split_commas (replicate n ''A''))"
    by (rule split_join_commas)
  with assms show ?thesis by simp
qed

lemma cap_rest_query:
  assumes "0 < n" "read_lines content = replicate n ''A'' @ [''B'']"
  shows "set (split_commas (rest_input_string h content)) = {''A'', ''B''}"
proof -
  let ?ids = "rest_input_ids h content"
  have "set ?ids = set (read_lines content)"
    by (rule set_rest_input_ids)
  also have "\<dots> = set (replicate n ''A'' @ [''B''])"
    by (simp only: assms(2))
  also have "\<dots> = {''A'', ''B''}"
    using assms(1) by (simp add: insert_commute)
  finally have s: "set ?ids = {''A'', ''B''}" .
  have "?ids \<noteq> []"
  proof
    assume "?ids = []"
    then have "set ?ids = {}" by (simp only: set_empty)
    with s show False by (simp only: insert_not_empty [symmetric] not_False_eq_True)
  qed
  then have "split_commas (join_commas ?ids) = concat (map split_commas ?ids)"
    by (rule split_join_commas)
  then have "set (split_commas (join_commas ?ids)) = (\<Union>x\<in>set ?ids. set (split_commas x))"
    by simp
  also have "\<dots> = {''A'', ''B''}"
    unfolding s by auto
  finally show ?thesis by (simp add: rest_input_string_def)
qed

lemma slow_lines: "read_lines (writelines [''P12345'']) = [''P12345'']"
  by (rule read_lines_writelines) (simp add: linebreak_def)

text \<open>
  C4, as the claim states it, fails twice. First, one identifier, and a job that signals
  readiness from its eleventh poll on: bioservices returns the accession and the file is
  written, the REST backend gives up after ten polls and writes nothing. Second, a file
  of 100,001 lines, 100,000 times \<^verbatim>\<open>A\<close> and then \<^verbatim>\<open>B\<close>, and a service that maps
  \<^verbatim>\<open>A\<close> to \<^verbatim>\<open>X\<close> and \<^verbatim>\<open>B\<close> to \<^verbatim>\<open>Y\<close>: the bioservices backend submits the first
  100,000 lines and writes \<^verbatim>\<open>X\<close>, the REST backend submits both identifiers and writes
  \<^verbatim>\<open>X\<close> and \<^verbatim>\<open>Y\<close>.
\<close>

theorem backends_differ:
  "same_data (table_mapping [(''P12345'', ''A0A000'')])
     (table_service 10 [(''P12345'', ''A0A000'')]) \<and>
   files (snd (map_refseqids_bioservices (table_mapping [(''P12345'', ''A0A000'')])
      ''in.txt'' ''out.txt'' [''RefSeq_Protein''] False
      (no_requests [''in.txt'' \<mapsto> writelines [''P12345'']]))) ''out.txt''
     = Some (one_per_line [''A0A000'']) \<and>
   fst (map_refseqids_rest length (table_service 10 [(''P12345'', ''A0A000'')])
      ''in.txt'' ''out.txt'' [''RefSeq_Protein''] False
      (no_requests [''in.txt'' \<mapsto> writelines [''P12345'']])) = Inl (SystemExit 300) \<and>
   files (snd (map_refseqids_rest length (table_service 10 [(''P12345'', ''A0A000'')])
      ''in.txt'' ''out.txt'' [''RefSeq_Protein''] False
      (no_requests [''in.txt'' \<mapsto> writelines [''P12345'']]))) ''out.txt'' = None \<and>
   same_data (table_mapping [(''A'', ''X''), (''B'', ''Y'')])
     (table_service 0 [(''A'', ''X''), (''B'', ''Y'')]) \<and>
   files (snd (map_refseqids_bioservices (table_mapping [(''A'', ''X''), (''B'', ''Y'')])
      ''in.txt'' ''out.txt'' [''RefSeq_Protein''] False
      (no_requests [''in.txt'' \<mapsto> writelines (replicate 100000 ''A'' @ [''B''])]))) ''out.txt''
     = Some (one_per_line [''X'']) \<and>
   files (snd (map_refseqids_rest length (table_service 0 [(''A'', ''X''), (''B'', ''Y'')])
      ''in.txt'' ''out.txt'' [''RefSeq_Protein''] False
      (no_requests [''in.txt'' \<mapsto> writelines (replicate 100000 ''A'' @ [''B''])]))) ''out.txt''
     = Some (one_per_line [''X'', ''Y''])"
proof (intro conjI)
  let ?t = "[(''P12345'', ''A0A000'')]"
  let ?w = "no_requests [''in.txt'' \<mapsto> writelines [''P12345'']]"
  show "same_data (table_mapping ?t) (table_service 10 ?t)"
    by (rule same_data_table)
  have u: "[''A0A000''] = unique (map snd ?t)"
    by (simp add: unique_def)
  show "files (snd (map_refseqids_bioservices (table_mapping ?t) ''in.txt'' ''out.txt''
      [''RefSeq_Protein''] False ?w)) ''out.txt'' = Some (one_per_line [''A0A000''])"
    unfolding u
    by (rule map_refseqids_bioservices_writes [where content = "writelines [''P12345'']"])
       (simp_all add: no_requests_def can_write_def table_mapping_def bioservices_result_def
         table_rows_def bioservices_ids_def slow_lines)
  show "fst (map_refseqids_rest length (table_service 10 ?t) ''in.txt'' ''out.txt''
      [''RefSeq_Protein''] False ?w) = Inl (SystemExit 300)"
    by code_simp
  show "files (snd (map_refseqids_rest length (table_service 10 ?t) ''in.txt'' ''out.txt''
      [''RefSeq_Protein''] False ?w)) ''out.txt'' = None"
    by code_simp
next
  let ?t = "[(''A'', ''X''), (''B'', ''Y'')]"
  let ?content = "writelines (replicate 100000 ''A'' @ [''B''])"
  let ?w = "no_requests [''in.txt'' \<mapsto> ?content]"
  show "same_data (table_mapping ?t) (table_service 0 ?t)"
    by (rule same_data_table)
  have u: "[''X''] = unique (map snd [(''A'', ''X'')])"
    by (simp add: unique_def)
  show "files (snd (map_refseqids_bioservices (table_mapping ?t) ''in.txt'' ''out.txt''
      [''RefSeq_Protein''] False ?w)) ''out.txt'' = Some (one_per_line [''X''])"
    unfolding u
    by (rule map_refseqids_bioservices_writes [where content = ?content])
       (simp_all add: no_requests_def can_write_def table_mapping_def bioservices_result_def
         table_rows_def cap_bioservices_query [OF _ cap_bioservices_ids])
  have u': "[''X'', ''Y''] = unique (map snd ?t)"
    by (simp add: unique_def)
  show "files (snd (map_refseqids_rest length (table_service 0 ?t) ''in.txt'' ''out.txt''
      [''RefSeq_Protein''] False ?w)) ''out.txt'' = Some (one_per_line [''X'', ''Y''])"
    unfolding u'
  proof (rule map_refseqids_rest_writes [where content = ?content])
    show "files ?w ''in.txt'' = Some ?content"
      by (simp add: no_requests_def)
    show "\<forall>db\<in>set [''RefSeq_Protein'']. \<exists>job rs.
        run_resp (table_service 0 ?t) db (rest_input_string length ?content) = Some job \<and>
        ready_within (table_service 0 ?t) job 9 \<and> stream_resp (table_service 0 ?t) job = Some rs"
      by (rule table_service_ready)
    show "?t = concat (map (mapping_result (table_service 0 ?t) (rest_input_string length ?content))
        [''RefSeq_Protein''])"
      by (simp add: table_service_result table_rows_def cap_rest_query [OF _ cap_lines])
    show "?t \<noteq> []" by simp
    show "can_write ?w ''out.txt''"
      by (simp add: can_write_def no_requests_def)
  qed
qed

subsection \<open>The timeout test\<close>

text \<open>
  C1 on the code. Line 165 tests \<^verbatim>\<open>tries == 10\<close>, not whether the loop ended without a
  ready signal. First run, the budget of the module (10): the job signals readiness in
  its tenth poll, within the budget, and the run still exits with the timeout message
  (300 seconds), after the run request and ten polls, with no stream request and no
  output file. Second run, a budget of 3 and a job that never signals readiness: after
  the run request and exactly three polls the run does not exit; it issues the stream
  request, writes the output file and ends without error.
\<close>

theorem timeout_test_ignores_ready_signal_and_budget:
  "fst (map_refseqids_rest length
          (answering (\<lambda>k. 9 \<le> k) [(''RefSeq_Protein'', [(''P12345'', ''A0A000'')])])
          ''in.txt'' ''out.txt'' [''RefSeq_Protein''] False
          (no_requests [''in.txt'' \<mapsto> ''P12345'']))
     = Inl (SystemExit 300) \<and>
   requests (snd (map_refseqids_rest length
          (answering (\<lambda>k. 9 \<le> k) [(''RefSeq_Protein'', [(''P12345'', ''A0A000'')])])
          ''in.txt'' ''out.txt'' [''RefSeq_Protein''] False
          (no_requests [''in.txt'' \<mapsto> ''P12345''])))
     = run_request ''P12345'' ''RefSeq_Protein'' # replicate 10 (status_request ''RefSeq_Protein'') \<and>
   files (snd (map_refseqids_rest length
          (answering (\<lambda>k. 9 \<le> k) [(''RefSeq_Protein'', [(''P12345'', ''A0A000'')])])
          ''in.txt'' ''out.txt'' [''RefSeq_Protein''] False
          (no_requests [''in.txt'' \<mapsto> ''P12345'']))) ''out.txt''
     = None \<and>
   fst (map_refseqids_rest_cfg (default_config\<lparr>cfg_limit := 3\<rparr>) length
          (answering (\<lambda>k. False) [(''RefSeq_Protein'', [(''P12345'', ''A0A000'')])])
          ''in.txt'' ''out.txt'' [''RefSeq_Protein''] False
          (no_requests [''in.txt'' \<mapsto> ''P12345'']))
     = Inr None \<and>
   requests (snd (map_refseqids_rest_cfg (default_config\<lparr>cfg_limit := 3\<rparr>) length
          (answering (\<lambda>k. False) [(''RefSeq_Protein'', [(''P12345'', ''A0A000'')])])
          ''in.txt'' ''out.txt'' [''RefSeq_Protein''] False
          (no_requests [''in.txt'' \<mapsto> ''P12345''])))
     = run_request ''P12345'' ''RefSeq_Protein'' # replicate 3 (status_request ''RefSeq_Protein'')
         @ [stream_request ''RefSeq_Protein''] \<and>
   files (snd (map_refseqids_rest_cfg (default_config\<lparr>cfg_limit := 3\<rparr>) length
          (answering (\<lambda>k. False) [(''RefSeq_Protein'', [(''P12345'', ''A0A000'')])])
          ''in.txt'' ''out.txt'' [''RefSeq_Protein''] False
          (no_requests [''in.txt'' \<mapsto> ''P12345'']))) ''out.txt''
     = Some (writelines [''A0A000''])"
  by code_simp

subsection \<open>Runs in which every database is empty\<close>

text \<open>
  C3 on the code. Two databases are configured and each returns zero rows. Each round is
  skipped, as the claim says, but the collector is still the frame without columns when
  the loop ends, so reading its accession column raises KeyError, in both backends, and
  the output file is not written.
\<close>

theorem all_databases_empty_raises_KeyError:
  "fst (map_refseqids_rest length (answering (\<lambda>k. True) [])
          ''in.txt'' ''out.txt'' DEFAULT_DBS False (no_requests [''in.txt'' \<mapsto> ''P12345'']))
     = Inl (KeyError ''to'') \<and>
   files (snd (map_refseqids_rest length (answering (\<lambda>k. True) [])
          ''in.txt'' ''out.txt'' DEFAULT_DBS False (no_requests [''in.txt'' \<mapsto> ''P12345''])))
       ''out.txt''
     = None \<and>
   fst (map_refseqids_bioservices (\<lambda>db target ids. Some [])
          ''in.txt'' ''out.txt'' DEFAULT_DBS False (no_requests [''in.txt'' \<mapsto> ''P12345'']))
     = Inl (KeyError ''to.primaryAccession'') \<and>
   files (snd (map_refseqids_bioservices (\<lambda>db target ids. Some [])
          ''in.txt'' ''out.txt'' DEFAULT_DBS False (no_requests [''in.txt'' \<mapsto> ''P12345''])))
       ''out.txt''
     = None"
proof (intro conjI)
  let ?w = "no_requests [''in.txt'' \<mapsto> ''P12345'']"
  show "fst (map_refseqids_rest length (answering (\<lambda>k. True) [])
          ''in.txt'' ''out.txt'' DEFAULT_DBS False ?w) = Inl (KeyError ''to'')"
    by code_simp
  show "files (snd (map_refseqids_rest length (answering (\<lambda>k. True) [])
          ''in.txt'' ''out.txt'' DEFAULT_DBS False ?w)) ''out.txt'' = None"
    by code_simp
  have inp: "files ?w ''in.txt'' = Some ''P12345''"
    by (simp add: no_requests_def)
  have answers: "\<forall>db\<in>set DEFAULT_DBS. \<exists>rs.
      (\<lambda>db target ids. Some []) db ''UniProtKB'' (join_commas (bioservices_ids ''P12345'')) = Some rs"
    by simp
  have rows: "[] = concat (map (bioservices_result (\<lambda>db target ids. Some [])
      (join_commas (bioservices_ids ''P12345''))) DEFAULT_DBS)"
    by (simp add: bioservices_result_def)
  show "fst (map_refseqids_bioservices (\<lambda>db target ids. Some [])
          ''in.txt'' ''out.txt'' DEFAULT_DBS False ?w) = Inl (KeyError ''to.primaryAccession'')"
    using map_refseqids_bioservices_answers(1) [OF inp answers rows, of "''out.txt''" False]
    by simp
  show "files (snd (map_refseqids_bioservices (\<lambda>db target ids. Some [])
          ''in.txt'' ''out.txt'' DEFAULT_DBS False ?w)) ''out.txt'' = None"
    using map_refseqids_bioservices_answers(2) [OF inp answers rows, of "''out.txt''" False]
    by (simp add: no_requests_def)
qed

subsection \<open>The cap of 100,000 identifiers\<close>

lemma many_lines_read:
  "read_lines (writelines (map (\<lambda>k. replicate (Suc k) CHR ''A'') [0..<n])) =
     map (\<lambda>k. replicate (Suc k) CHR ''A'') [0..<n]"
  by (rule read_lines_writelines) (auto simp: linebreak_def)

lemma many_lines_distinct: "distinct (map (\<lambda>k. replicate (Suc k) CHR ''A'') [0..<n])"
  by (simp add: distinct_map inj_on_def)

lemma many_lines_bioservices:
  assumes "100000 < n"
  shows "bioservices_ids (writelines (map (\<lambda>k. replicate (Suc k) CHR ''A'') [0..<n])) =
     map (\<lambda>k. replicate (Suc k) CHR ''A'') [0..<100000]"
proof -
  from assms have t: "take 100000 [0..<n] = [0..<100000]"
    by (simp add: take_upt)
  have "bioservices_ids (writelines (map (\<lambda>k. replicate (Suc k) CHR ''A'') [0..<n])) =
      take 100000 (map (\<lambda>k. replicate (Suc k) CHR ''A'') [0..<n])"
    unfolding bioservices_ids_def many_lines_read using assms by (simp add: Let_def)
  also have "\<dots> = map (\<lambda>k. replicate (Suc k) CHR ''A'') (take 100000 [0..<n])"
    by (rule take_map)
  finally show ?thesis by (simp only: t)
qed

lemma many_lines_rest:
  "length (rest_input_ids h (writelines (map (\<lambda>k. replicate (Suc k) CHR ''A'') [0..<n]))) = n"
proof -
  have "length (rest_input_ids h (writelines (map (\<lambda>k. replicate (Suc k) CHR ''A'') [0..<n])))
      = card (set (map (\<lambda>k. replicate (Suc k) CHR ''A'') [0..<n]))"
    unfolding rest_input_ids_def list_set_def many_lines_read
    by (simp only: length_sort length_remdups_card_conv)
  also have "\<dots> = length (map (\<lambda>k. replicate (Suc k) CHR ''A'') [0..<n])"
    by (rule distinct_card) (rule many_lines_distinct)
  finally show ?thesis by simp
qed

text \<open>
  C5 on the code. The input file holds the 100,001 distinct lines \<^verbatim>\<open>A\<close>, \<^verbatim>\<open>AA\<close>,
  \<^verbatim>\<open>AAA\<close> and so on. \<^verbatim>\<open>map_refseqids_bioservices\<close> submits the first 100,000 of them;
  \<^verbatim>\<open>map_refseqids_rest\<close> submits all 100,001.
\<close>

theorem rest_backend_has_no_cap:
  "bioservices_ids (writelines (map (\<lambda>k. replicate (Suc k) CHR ''A'') [0..<100001])) =
     map (\<lambda>k. replicate (Suc k) CHR ''A'') [0..<100000] \<and>
   length (bioservices_ids (writelines (map (\<lambda>k. replicate (Suc k) CHR ''A'') [0..<100001])))
     = 100000 \<and>
   length (rest_input_ids h (writelines (map (\<lambda>k. replicate (Suc k) CHR ''A'') [0..<100001])))
     = 100001"
proof -
  have "(100000::nat) < 100001" by simp
  then have "bioservices_ids (writelines (map (\<lambda>k. replicate (Suc k) CHR ''A'') [0..<100001])) =
     map (\<lambda>k. replicate (Suc k) CHR ''A'') [0..<100000]"
    by (rule many_lines_bioservices)
  then show ?thesis
    by (simp only: many_lines_rest length_map length_upt diff_zero simp_thms)
qed

subsection \<open>Request headers\<close>

text \<open>
  C9 on the code. One database, one job that is ready at its first poll: the run issues
  the POST to \<^verbatim>\<open>/run\<close>, one GET to \<^verbatim>\<open>/status/{jobId}\<close> and the GET to
  \<^verbatim>\<open>/stream/{jobId}\<close>. The first two carry \<^verbatim>\<open>REQUESTS_HEADER\<close>; the stream request of
  line 170 is issued without the \<^verbatim>\<open>headers\<close> argument.
\<close>

theorem stream_request_carries_no_user_agent:
  "requests (snd (map_refseqids_rest length
      (answering (\<lambda>k. True) [(''RefSeq_Protein'', [(''P12345'', ''A0A000'')])])
      ''in.txt'' ''out.txt'' [''RefSeq_Protein''] False
      (no_requests [''in.txt'' \<mapsto> ''P12345''])))
     = [run_request ''P12345'' ''RefSeq_Protein'', status_request ''RefSeq_Protein'',
        stream_request ''RefSeq_Protein''] \<and>
   map req_url (requests (snd (map_refseqids_rest length
      (answering (\<lambda>k. True) [(''RefSeq_Protein'', [(''P12345'', ''A0A000'')])])
      ''in.txt'' ''out.txt'' [''RefSeq_Protein''] False
      (no_requests [''in.txt'' \<mapsto> ''P12345'']))))
     = [''https://rest.uniprot.org/idmapping/run'',
        ''https://rest.uniprot.org/idmapping/status/RefSeq_Protein'',
        ''https://rest.uniprot.org/idmapping/stream/RefSeq_Protein''] \<and>
   map req_headers (requests (snd (map_refseqids_rest length
      (answering (\<lambda>k. True) [(''RefSeq_Protein'', [(''P12345'', ''A0A000'')])])
      ''in.txt'' ''out.txt'' [''RefSeq_Protein''] False
      (no_requests [''in.txt'' \<mapsto> ''P12345'']))))
     = [REQUESTS_HEADER, REQUESTS_HEADER, []]"
  by code_simp

end
